theory Spec2Isabelle
  imports Complex_Main "HOL-Library.Multiset" "HOL-Library.Log_Nat" "HOL-Library.Word"
begin

section \<open>Shared data of the order-book keepers\<close>

text \<open>
  A \<open>Wad\<close> of pymaker is an unbounded Python integer (the amount scaled by \<open>10^18\<close>);
  \<open>Wad - Wad\<close> subtracts the two integers and may be negative.
\<close>

type_synonym wad = int

datatype py_error = IndexError | ZeroDivisionError | VenueError | OverflowError | ValueError

text \<open>
  \<open>Order\<close> of pyexchange: the fields both venues share, extended by \<open>timestamp\<close>
  (eToro) and by \<open>filled_amount\<close> (Kraken).
\<close>

record order =
  order_id :: string
  order_pair :: string
  is_sell :: bool
  price :: wad
  amount :: wad

record etoro_order = order +
  timestamp :: string

record kraken_order = order +
  filled_amount :: wad

text \<open>\<open>NewOrder\<close> of the bands policy: side, price, pay amount, buy amount.\<close>

record new_order =
  new_is_sell :: bool
  new_price :: wad
  pay_amount :: wad
  buy_amount :: wad

text \<open>
  The snapshot handed out by \<open>OrderBookManager.get_order_book\<close>: the open orders, the
  balances as the venue reports them, and the two flags of unconfirmed operations.
\<close>

record ('o, 'b) order_book =
  orders :: "'o list"
  balances :: 'b
  orders_being_placed :: bool
  orders_being_cancelled :: bool

text \<open>
  The policy object returned by \<open>Bands.read\<close>. Its two methods are taken as they are
  called: \<open>new_orders\<close> returns a tuple whose first component is the list of orders.
\<close>

record ('o, 'p, 'r) bands =
  cancellable_orders :: "'o list \<Rightarrow> 'o list \<Rightarrow> 'p \<Rightarrow> 'o list"
  new_orders :: "'o list \<Rightarrow> 'o list \<Rightarrow> wad \<Rightarrow> wad \<Rightarrow> 'p \<Rightarrow> new_order list \<times> 'r"

text \<open>
  A scheduled submission is a lambda that the worker calls without arguments and whose
  body is \<open>place_order_function(new_order)\<close>. Written as
  \<open>lambda new_order=new_order: ...\<close>, as both keepers write it, the name is a parameter
  whose default was evaluated when the lambda was created: \<open>Task\<close> holds that value.
  Written without the default argument, the name would be the loop variable of
  \<open>place_orders\<close>, read when the lambda is called: \<open>LateTask\<close>.
\<close>

datatype task = Task new_order | LateTask

text \<open>The calls a tick makes on the \<open>OrderBookManager\<close>, in order.\<close>

datatype 'o manager_call = CancelOrders "'o list" | PlaceOrder task

fun is_place :: "'o manager_call \<Rightarrow> bool" where
  "is_place (PlaceOrder t) = True"
| "is_place (CancelOrders cs) = False"

fun is_cancel :: "'o manager_call \<Rightarrow> bool" where
  "is_cancel (CancelOrders cs) = True"
| "is_cancel (PlaceOrder t) = False"

text \<open>
  The calls of a tick that may raise. Every exception of the model is raised while the
  arguments of the first call are still being evaluated, so a tick that raises has made
  no call.
\<close>

definition calls_made :: "py_error + 'c list \<Rightarrow> 'c list" where
  "calls_made r = (case r of Inl e \<Rightarrow> [] | Inr calls \<Rightarrow> calls)"

section \<open>Strings\<close>

text \<open>\<open>str.split(sep)\<close> for a one-character separator: never returns an empty list.\<close>

fun split_char :: "char \<Rightarrow> string \<Rightarrow> string list" where
  "split_char sep [] = [[]]"
| "split_char sep (c # cs) =
     (if c = sep then [] # split_char sep cs
      else (case split_char sep cs of
              [] \<Rightarrow> [[c]]
            | w # ws \<Rightarrow> (c # w) # ws))"

text \<open>\<open>str.lower()\<close> and \<open>str.upper()\<close> on ASCII letters; other characters are kept.\<close>

definition lower_char :: "char \<Rightarrow> char" where
  "lower_char c =
     (if 65 \<le> (of_char c :: nat) \<and> (of_char c :: nat) \<le> 90
      then char_of ((of_char c :: nat) + 32) else c)"

definition upper_char :: "char \<Rightarrow> char" where
  "upper_char c =
     (if 97 \<le> (of_char c :: nat) \<and> (of_char c :: nat) \<le> 122
      then char_of ((of_char c :: nat) - 32) else c)"

definition lower :: "string \<Rightarrow> string" where
  "lower s = map lower_char s"

definition upper :: "string \<Rightarrow> string" where
  "upper s = map upper_char s"

text \<open>\<open>xs[i]\<close> for a non-negative literal index: IndexError out of range.\<close>

definition index :: "'a list \<Rightarrow> nat \<Rightarrow> py_error + 'a" where
  "index xs i = (if i < length xs then Inr (xs ! i) else Inl IndexError)"

section \<open>The Kraken keeper\<close>

text \<open>
  The fields of \<open>KrakenMarketMakerKeeper\<close> that a tick reads: the \<open>--pair\<close> argument,
  \<open>self.assets\<close> (a dict from symbol to a dict holding \<open>altname\<close>, in insertion order),
  \<open>self.pair_precision\<close>, and the external collaborators: pymaker's
  \<open>Wad.from_number\<close> and \<open>Wad.__round__\<close>, and \<open>KrakenApi.place_order\<close>, which returns
  an order id or raises.
\<close>

record 'n kraken_keeper =
  kraken_pair_arg :: string
  assets :: "(string \<times> string) list"
  pair_precision :: int
  kraken_from_number :: "'n \<Rightarrow> wad"
  wad_round :: "wad \<Rightarrow> int \<Rightarrow> wad"
  kraken_api_place_order :: "string \<Rightarrow> bool \<Rightarrow> wad \<Rightarrow> wad \<Rightarrow> py_error + string"

definition kraken_pair :: "'n kraken_keeper \<Rightarrow> string" where
  "kraken_pair k = upper (kraken_pair_arg k)"

definition kraken_token_sell :: "'n kraken_keeper \<Rightarrow> string" where
  "kraken_token_sell k = take 3 (kraken_pair_arg k)"

definition kraken_token_buy :: "'n kraken_keeper \<Rightarrow> string" where
  "kraken_token_buy k = drop 3 (kraken_pair_arg k)"

definition kraken_our_sell_orders :: "kraken_order list \<Rightarrow> kraken_order list" where
  "kraken_our_sell_orders our_orders = filter (\<lambda>order. is_sell order) our_orders"

definition kraken_our_buy_orders :: "kraken_order list \<Rightarrow> kraken_order list" where
  "kraken_our_buy_orders our_orders = filter (\<lambda>order. \<not> is_sell order) our_orders"

text \<open>
  \<open>our_available_balance\<close>: the loop over \<open>self.assets\<close> returns at the first symbol
  whose altname is the token and which the balances hold; after the loop,
  \<open>Wad.from_number(0)\<close>.
\<close>

fun kraken_balance_loop ::
  "('n::zero \<Rightarrow> wad) \<Rightarrow> (string \<times> string) list \<Rightarrow> (string \<rightharpoonup> 'n) \<Rightarrow> string \<Rightarrow> wad" where
  "kraken_balance_loop from_number [] our_balances token = from_number 0"
| "kraken_balance_loop from_number ((symbol, altname) # rest) our_balances token =
     (if altname = token \<and> our_balances symbol \<noteq> None
      then from_number (the (our_balances symbol))
      else kraken_balance_loop from_number rest our_balances token)"

definition kraken_our_available_balance ::
  "'n::zero kraken_keeper \<Rightarrow> (string \<rightharpoonup> 'n) \<Rightarrow> string \<Rightarrow> wad" where
  "kraken_our_available_balance k our_balances token =
     kraken_balance_loop (kraken_from_number k) (assets k) our_balances token"

text \<open>
  Modelled from the spec: \<open>Bands.total_amount\<close> (market_maker_keeper/band.py is not
  among the sources). The spec's \<open>locked(currency)\<close> "sums the pay-side amount of every
  currently open order that consumes that currency"; the pay-side amount of an order is
  read by \<open>pay_side\<close>, a property of pyexchange's \<open>Order\<close>.
\<close>

definition total_amount :: "('o \<Rightarrow> wad) \<Rightarrow> 'o list \<Rightarrow> wad" where
  "total_amount pay_side our_orders = sum_list (map pay_side our_orders)"

text \<open>The two balances that \<open>synchronize_orders\<close> passes to \<open>new_orders\<close>.\<close>

definition kraken_our_buy_balance ::
  "'n::zero kraken_keeper \<Rightarrow> (kraken_order \<Rightarrow> wad) \<Rightarrow> (kraken_order, string \<rightharpoonup> 'n) order_book \<Rightarrow> wad" where
  "kraken_our_buy_balance k pay_side order_book =
     kraken_our_available_balance k (balances order_book) (kraken_token_buy k)
       - total_amount pay_side (kraken_our_buy_orders (orders order_book))"

definition kraken_our_sell_balance ::
  "'n::zero kraken_keeper \<Rightarrow> (kraken_order \<Rightarrow> wad) \<Rightarrow> (kraken_order, string \<rightharpoonup> 'n) order_book \<Rightarrow> wad" where
  "kraken_our_sell_balance k pay_side order_book =
     kraken_our_available_balance k (balances order_book) (kraken_token_sell k)
       - total_amount pay_side (kraken_our_sell_orders (orders order_book))"

definition kraken_place_order_function ::
  "'n kraken_keeper \<Rightarrow> new_order \<Rightarrow> py_error + kraken_order" where
  "kraken_place_order_function k new_order_to_be_placed =
     (let price = wad_round k (new_price new_order_to_be_placed) (pair_precision k);
          amount = (if new_is_sell new_order_to_be_placed
                    then pay_amount new_order_to_be_placed
                    else buy_amount new_order_to_be_placed)
      in case kraken_api_place_order k (kraken_pair k) (new_is_sell new_order_to_be_placed)
                price amount of
           Inl e \<Rightarrow> Inl e
         | Inr oid \<Rightarrow>
             Inr \<lparr>order_id = oid, order_pair = kraken_pair k,
                  is_sell = new_is_sell new_order_to_be_placed,
                  price = price, amount = amount, filled_amount = 0\<rparr>)"

fun kraken_place_orders :: "new_order list \<Rightarrow> kraken_order manager_call list" where
  "kraken_place_orders [] = []"
| "kraken_place_orders (new_order # rest) =
     PlaceOrder (Task new_order) # kraken_place_orders rest"

definition kraken_synchronize_orders ::
  "'n::zero kraken_keeper \<Rightarrow> (kraken_order \<Rightarrow> wad) \<Rightarrow> (kraken_order, 'p, 'r) bands \<Rightarrow>
   (kraken_order, string \<rightharpoonup> 'n) order_book \<Rightarrow> 'p \<Rightarrow> kraken_order manager_call list" where
  "kraken_synchronize_orders k pay_side bands order_book target_price =
     (let cancellable =
            cancellable_orders bands (kraken_our_buy_orders (orders order_book))
              (kraken_our_sell_orders (orders order_book)) target_price
      in if length cancellable > 0 then [CancelOrders cancellable]
         else if orders_being_placed order_book \<or> orders_being_cancelled order_book then []
         else
           (let our_buy_orders = kraken_our_buy_orders (orders order_book);
                our_sell_orders = kraken_our_sell_orders (orders order_book);
                our_buy_balance = kraken_our_buy_balance k pay_side order_book;
                our_sell_balance = kraken_our_sell_balance k pay_side order_book
            in kraken_place_orders
                 (fst (new_orders bands our_buy_orders our_sell_orders
                         our_buy_balance our_sell_balance target_price))))"

section \<open>The eToro keeper\<close>

text \<open>
  The fields of \<open>EToroMarketMakerKeeper\<close> that a tick reads: the \<open>--pair\<close> argument and
  the external collaborators: pymaker's \<open>Wad.from_number\<close>, \<open>EToroApi.place_order\<close>
  (it returns an order id, here already as the string \<open>str(order_id)\<close>, or raises) and
  the clock read by \<open>datetime.now\<close>.
\<close>

record 'n etoro_keeper =
  etoro_pair_arg :: string
  etoro_from_number :: "'n \<Rightarrow> wad"
  etoro_api_place_order :: "string \<Rightarrow> string \<Rightarrow> wad \<Rightarrow> wad \<Rightarrow> py_error + string"
  now :: string

text \<open>One entry of the list returned by \<open>EToroApi.get_balances\<close>.\<close>

record 'n etoro_balance =
  currency :: string
  balance :: 'n

definition etoro_pair :: "'n etoro_keeper \<Rightarrow> string" where
  "etoro_pair k = lower (etoro_pair_arg k)"

definition etoro_token_sell :: "'n etoro_keeper \<Rightarrow> py_error + string" where
  "etoro_token_sell k =
     (case index (split_char (CHR ''_'') (etoro_pair_arg k)) 0 of
        Inl e \<Rightarrow> Inl e | Inr s \<Rightarrow> Inr (lower s))"

definition etoro_token_buy :: "'n etoro_keeper \<Rightarrow> py_error + string" where
  "etoro_token_buy k =
     (case index (split_char (CHR ''_'') (etoro_pair_arg k)) 1 of
        Inl e \<Rightarrow> Inl e | Inr s \<Rightarrow> Inr (lower s))"

definition join_string :: "string \<Rightarrow> string" where
  "join_string s = lower (concat (split_char (CHR ''_'') s))"

definition etoro_our_available_balance ::
  "'n etoro_keeper \<Rightarrow> 'n etoro_balance list \<Rightarrow> string \<Rightarrow> py_error + wad" where
  "etoro_our_available_balance k our_balances token =
     (case index (filter (\<lambda>x. currency x = token) our_balances) 0 of
        Inl e \<Rightarrow> Inl e
      | Inr x \<Rightarrow> Inr (etoro_from_number k (balance x)))"

definition etoro_our_sell_orders :: "etoro_order list \<Rightarrow> etoro_order list" where
  "etoro_our_sell_orders our_orders = filter (\<lambda>order. is_sell order) our_orders"

definition etoro_our_buy_orders :: "etoro_order list \<Rightarrow> etoro_order list" where
  "etoro_our_buy_orders our_orders = filter (\<lambda>order. \<not> is_sell order) our_orders"

definition etoro_place_order_function ::
  "'n etoro_keeper \<Rightarrow> new_order \<Rightarrow> py_error + etoro_order" where
  "etoro_place_order_function k new_order_to_be_placed =
     (let amount = (if new_is_sell new_order_to_be_placed
                    then pay_amount new_order_to_be_placed
                    else buy_amount new_order_to_be_placed);
          side = (if new_is_sell new_order_to_be_placed = True then ''sell'' else ''buy'')
      in case etoro_api_place_order k (join_string (etoro_pair k)) side
                (new_price new_order_to_be_placed) amount of
           Inl e \<Rightarrow> Inl e
         | Inr oid \<Rightarrow>
             Inr \<lparr>order_id = oid, order_pair = join_string (etoro_pair k),
                  is_sell = new_is_sell new_order_to_be_placed,
                  price = new_price new_order_to_be_placed, amount = amount,
                  timestamp = now k\<rparr>)"

fun etoro_place_orders :: "new_order list \<Rightarrow> etoro_order manager_call list" where
  "etoro_place_orders [] = []"
| "etoro_place_orders (new_order # rest) =
     PlaceOrder (Task new_order) # etoro_place_orders rest"

text \<open>
  The two balances that \<open>synchronize_orders\<close> passes to \<open>new_orders\<close>: each is the
  result of \<open>our_available_balance\<close> for the token, and raises what it raises.
\<close>

definition etoro_our_buy_balance ::
  "'n etoro_keeper \<Rightarrow> (etoro_order, 'n etoro_balance list) order_book \<Rightarrow> py_error + wad" where
  "etoro_our_buy_balance k order_book =
     (case etoro_token_buy k of
        Inl e \<Rightarrow> Inl e
      | Inr token \<Rightarrow> etoro_our_available_balance k (balances order_book) token)"

definition etoro_our_sell_balance ::
  "'n etoro_keeper \<Rightarrow> (etoro_order, 'n etoro_balance list) order_book \<Rightarrow> py_error + wad" where
  "etoro_our_sell_balance k order_book =
     (case etoro_token_sell k of
        Inl e \<Rightarrow> Inl e
      | Inr token \<Rightarrow> etoro_our_available_balance k (balances order_book) token)"

definition etoro_synchronize_orders ::
  "'n etoro_keeper \<Rightarrow> (etoro_order, 'p, 'r) bands \<Rightarrow>
   (etoro_order, 'n etoro_balance list) order_book \<Rightarrow> 'p \<Rightarrow>
   py_error + etoro_order manager_call list" where
  "etoro_synchronize_orders k bands order_book target_price =
     (let cancellable =
            cancellable_orders bands (etoro_our_buy_orders (orders order_book))
              (etoro_our_sell_orders (orders order_book)) target_price
      in if length cancellable > 0 then Inr [CancelOrders cancellable]
         else if orders_being_placed order_book \<or> orders_being_cancelled order_book
         then Inr []
         else
           (case etoro_our_buy_balance k order_book of
              Inl e \<Rightarrow> Inl e
            | Inr our_buy_balance \<Rightarrow>
                (case etoro_our_sell_balance k order_book of
                   Inl e \<Rightarrow> Inl e
                 | Inr our_sell_balance \<Rightarrow>
                     Inr (etoro_place_orders
                            (fst (new_orders bands (etoro_our_buy_orders (orders order_book))
                                    (etoro_our_sell_orders (orders order_book))
                                    our_buy_balance our_sell_balance target_price))))))"

section \<open>The worker pool\<close>

text \<open>
  Modelled from the spec: \<open>OrderBookManager.place_order\<close> and its worker pool
  (market_maker_keeper/order_book.py is not among the sources). The spec has each
  scheduled order run as "an independent unit of work"; "on failure, the order is
  dropped for this tick and logged", and the failure of one submission does not keep the
  others from being attempted. So every scheduled task is called, with the loop variable
  of \<open>place_orders\<close> holding whatever it holds by then, and the outcome of each call is
  recorded on its own.
\<close>

fun scheduled :: "'o manager_call list \<Rightarrow> task list" where
  "scheduled [] = []"
| "scheduled (PlaceOrder t # rest) = t # scheduled rest"
| "scheduled (CancelOrders cs # rest) = scheduled rest"

fun call_task :: "(new_order \<Rightarrow> py_error + 'o) \<Rightarrow> new_order \<Rightarrow> task \<Rightarrow> py_error + 'o" where
  "call_task place_order_function loop_variable (Task new_order) =
     place_order_function new_order"
| "call_task place_order_function loop_variable LateTask =
     place_order_function loop_variable"

definition run_scheduled ::
  "(new_order \<Rightarrow> py_error + 'o) \<Rightarrow> new_order \<Rightarrow> 'o manager_call list \<Rightarrow>
   (py_error + 'o) list" where
  "run_scheduled place_order_function loop_variable calls =
     map (call_task place_order_function loop_variable) (scheduled calls)"

section \<open>Python floats\<close>

text \<open>
  A Python float is an IEEE 754 binary64 number: a finite value (kept as the exact
  rational it denotes), an infinity or NaN. The sign of zero is not kept: no operation
  of the keeper tells the two zeros apart (a division by either raises).
\<close>

datatype pyfloat = Finite rat | PosInf | NegInf | NaN

text \<open>
  \<open>pow2 e\<close> is \<open>2^e\<close>, and \<open>exponent x\<close>, for a positive \<open>x\<close>, the \<open>e\<close> with
  \<open>2^e \<le> x < 2^(e+1)\<close>, found from the bit lengths of numerator and denominator.
\<close>

definition pow2 :: "int \<Rightarrow> rat" where
  "pow2 e = (if 0 \<le> e then 2 ^ nat e else 1 / 2 ^ nat (- e))"

definition exponent :: "rat \<Rightarrow> int" where
  "exponent x =
     (let d = bitlen (fst (quotient_of x)) - bitlen (snd (quotient_of x))
      in if pow2 d \<le> x then d else d - 1)"

text \<open>Rounding to the nearest integer, a tie to the even one.\<close>

definition round_half_even :: "rat \<Rightarrow> int" where
  "round_half_even q =
     (let f = \<lfloor>q\<rfloor>; r = q - of_int f
      in if r < 1 / 2 then f
         else if 1 / 2 < r then f + 1
         else if even f then f else f + 1)"

text \<open>
  The float nearest to an exact value, as every float operation, the conversion of a
  decimal literal and \<open>int / int\<close> round: 53 significant bits (fewer below
  \<open>2^-1022\<close>, where the spacing stays \<open>2^-1074\<close>), ties to even, and an infinity
  when the rounded value reaches \<open>2^1024\<close>.
\<close>

definition round64 :: "rat \<Rightarrow> pyfloat" where
  "round64 x =
     (if x = 0 then Finite 0
      else
        (let e = max (exponent \<bar>x\<bar>) (- 1022);
             ulp = pow2 (e - 52);
             n = round_half_even (x / ulp)
         in if 1023 < e \<or> (e = 1023 \<and> 2 ^ 53 \<le> \<bar>n\<bar>)
            then (if 0 < x then PosInf else NegInf)
            else Finite (of_int n * ulp)))"

text \<open>
  \<open>a - b\<close>, \<open>a * b\<close> and \<open>a / b\<close> for a non-zero \<open>b\<close> (\<open>fquot\<close>), \<open>abs\<close>,
  \<open>a < b\<close> and the two-argument \<open>min\<close>, which returns its second argument only when
  that is smaller than the first.
\<close>

fun fsub :: "pyfloat \<Rightarrow> pyfloat \<Rightarrow> pyfloat" where
  "fsub NaN b = NaN"
| "fsub a NaN = NaN"
| "fsub (Finite x) (Finite y) = round64 (x - y)"
| "fsub (Finite x) PosInf = NegInf"
| "fsub (Finite x) NegInf = PosInf"
| "fsub PosInf PosInf = NaN"
| "fsub NegInf NegInf = NaN"
| "fsub PosInf b = PosInf"
| "fsub NegInf b = NegInf"

definition signed_inf :: "bool \<Rightarrow> pyfloat" where
  "signed_inf negative = (if negative then NegInf else PosInf)"

fun fmul :: "pyfloat \<Rightarrow> pyfloat \<Rightarrow> pyfloat" where
  "fmul NaN b = NaN"
| "fmul a NaN = NaN"
| "fmul (Finite x) (Finite y) = round64 (x * y)"
| "fmul (Finite x) PosInf = (if x = 0 then NaN else signed_inf (x < 0))"
| "fmul (Finite x) NegInf = (if x = 0 then NaN else signed_inf (0 < x))"
| "fmul PosInf (Finite y) = (if y = 0 then NaN else signed_inf (y < 0))"
| "fmul NegInf (Finite y) = (if y = 0 then NaN else signed_inf (0 < y))"
| "fmul PosInf PosInf = PosInf"
| "fmul NegInf NegInf = PosInf"
| "fmul PosInf NegInf = NegInf"
| "fmul NegInf PosInf = NegInf"

fun fquot :: "pyfloat \<Rightarrow> pyfloat \<Rightarrow> pyfloat" where
  "fquot NaN b = NaN"
| "fquot a NaN = NaN"
| "fquot (Finite x) (Finite y) = round64 (x / y)"
| "fquot (Finite x) b = Finite 0"
| "fquot PosInf (Finite y) = signed_inf (y < 0)"
| "fquot NegInf (Finite y) = signed_inf (0 \<le> y)"
| "fquot a b = NaN"

text \<open>\<open>a / b\<close> on floats raises ZeroDivisionError when \<open>b\<close> is zero.\<close>

definition py_fdiv :: "pyfloat \<Rightarrow> pyfloat \<Rightarrow> py_error + pyfloat" where
  "py_fdiv a b = (if b = Finite 0 then Inl ZeroDivisionError else Inr (fquot a b))"

fun fabs :: "pyfloat \<Rightarrow> pyfloat" where
  "fabs (Finite x) = Finite \<bar>x\<bar>"
| "fabs PosInf = PosInf"
| "fabs NegInf = PosInf"
| "fabs NaN = NaN"

fun flt :: "pyfloat \<Rightarrow> pyfloat \<Rightarrow> bool" where
  "flt NaN b = False"
| "flt a NaN = False"
| "flt (Finite x) (Finite y) = (x < y)"
| "flt a PosInf = (a \<noteq> PosInf)"
| "flt NegInf b = (b \<noteq> NegInf)"
| "flt a b = False"

definition fmin :: "pyfloat \<Rightarrow> pyfloat \<Rightarrow> pyfloat" where
  "fmin a b = (if flt b a then b else a)"

text \<open>
  \<open>int(x)\<close> cuts towards zero and raises on an infinity (OverflowError) and on NaN
  (ValueError). \<open>n / d\<close> on integers is the correctly rounded quotient, and raises
  OverflowError when that is too large for a float.
\<close>

fun py_int :: "pyfloat \<Rightarrow> py_error + int" where
  "py_int (Finite x) = Inr (if 0 \<le> x then \<lfloor>x\<rfloor> else \<lceil>x\<rceil>)"
| "py_int NaN = Inl ValueError"
| "py_int a = Inl OverflowError"

definition int_true_div :: "int \<Rightarrow> int \<Rightarrow> py_error + pyfloat" where
  "int_true_div n d =
     (if d = 0 then Inl ZeroDivisionError
      else (case round64 (of_int n / of_int d) of
              PosInf \<Rightarrow> Inl OverflowError
            | NegInf \<Rightarrow> Inl OverflowError
            | f \<Rightarrow> Inr f))"

section \<open>The Uniswap keeper\<close>

definition ONE_ETH :: int where
  "ONE_ETH = 1 * 10 ^ 18"

text \<open>
  What one tick of \<open>place_liquidity\<close> reads: the feed price, the exchange rate of the
  pool and the \<open>--percentage-difference\<close> argument (floats; a price that arrives as an
  integer enters the arithmetic as the float it converts to), the token address, the
  ERC20 balance (\<open>balance_of(...).value\<close>) and the ether balance in wei (\<open>getBalance\<close>),
  both unsigned 256-bit quantities of the chain, and the liquidity tokens held
  (\<open>exch_contract.functions.balanceOf(...).call()\<close>, read where the tick decides; the add
  and the remove branch never both run).
\<close>

record uniswap_keeper =
  feed_price :: pyfloat
  uniswap_price :: pyfloat
  percentage_difference :: pyfloat
  token :: string
  token_balance_value :: "256 word"
  eth_balance_wei :: "256 word"
  liquidity_tokens :: int

text \<open>The calls a tick makes on the \<open>UniswapWrapper\<close>, in order.\<close>

datatype uniswap_call = AddLiquidity string int int | RemoveLiquidity string int


fun is_remove :: "uniswap_call \<Rightarrow> bool" where
  "is_remove (RemoveLiquidity t a) = True"
| "is_remove (AddLiquidity t a m) = False"

text \<open>
  The integer constants that meet a float (\<open>100\<close>, \<open>95\<close>, \<open>ONE_ETH\<close>, \<open>0\<close>) convert
  to floats exactly; \<open>0.02\<close> is the float nearest to \<open>2/100\<close>, and \<open>0.5\<close> is exact.
\<close>

definition diff :: "uniswap_keeper \<Rightarrow> pyfloat" where
  "diff u = fquot (fmul (feed_price u) (percentage_difference u)) (Finite 100)"

definition add_liquidity :: "uniswap_keeper \<Rightarrow> bool" where
  "add_liquidity u = flt (fabs (fsub (feed_price u) (uniswap_price u))) (diff u)"

definition remove_liquidity :: "uniswap_keeper \<Rightarrow> bool" where
  "remove_liquidity u = flt (diff u) (fabs (fsub (feed_price u) (uniswap_price u)))"

definition token_balance :: "uniswap_keeper \<Rightarrow> py_error + pyfloat" where
  "token_balance u = int_true_div (uint (token_balance_value u)) ONE_ETH"

definition eth_balance :: "uniswap_keeper \<Rightarrow> py_error + pyfloat" where
  "eth_balance u = int_true_div (uint (eth_balance_wei u)) ONE_ETH"

text \<open>
  \<open>place_liquidity\<close>. In the add branch the logged \<open>token_balance / uniswap_price\<close> is
  evaluated before the amount, and either division raises on a zero exchange rate; the
  two \<open>int(...)\<close> are evaluated as arguments of the call. So whatever raises, raises
  before any call. Waiting for the receipt of a transaction is left to web3.
\<close>

definition place_liquidity :: "uniswap_keeper \<Rightarrow> py_error + uniswap_call list" where
  "place_liquidity u =
     (case token_balance u of
        Inl e \<Rightarrow> Inl e
      | Inr tokens \<Rightarrow>
     (case eth_balance u of
        Inl e \<Rightarrow> Inl e
      | Inr ether \<Rightarrow>
     (case
        (if add_liquidity u then
           (let eth_balance_no_gas = fsub ether (round64 (2 / 100));
                liquidity_to_add = eth_balance_no_gas
            in case py_fdiv tokens (uniswap_price u) of
                 Inl e \<Rightarrow> Inl e
               | Inr calculated \<Rightarrow>
                   (case py_fdiv (fquot (fmul tokens (Finite 95)) (Finite 100))
                           (uniswap_price u) of
                      Inl e \<Rightarrow> Inl e
                    | Inr q \<Rightarrow>
                        (let eth_amount_to_add = fmin liquidity_to_add q;
                             current_liquidity_tokens = liquidity_tokens u
                         in if flt (Finite 0) liquidity_to_add \<and> current_liquidity_tokens = 0
                            then
                              (case py_int (fmul eth_amount_to_add
                                              (Finite (of_int ONE_ETH))) of
                                 Inl e \<Rightarrow> Inl e
                               | Inr max_eth \<Rightarrow>
                                   (case py_int (fmul (fmul (Finite (1 / 2)) eth_amount_to_add)
                                                   (Finite (of_int ONE_ETH))) of
                                      Inl e \<Rightarrow> Inl e
                                    | Inr min_liquidity \<Rightarrow>
                                        Inr [AddLiquidity (token u) max_eth min_liquidity]))
                            else Inr [])))
         else Inr [])
      of
        Inl e \<Rightarrow> Inl e
      | Inr added \<Rightarrow>
          Inr (added @
            (if remove_liquidity u then
               (let liquidity_to_remove = liquidity_tokens u
                in if liquidity_to_remove > 0
                   then [RemoveLiquidity (token u) liquidity_to_remove]
                   else [])
             else [])))))"

section \<open>Example inputs\<close>

text \<open>
  Concrete keepers, snapshots and policies on which the properties below are evaluated.
  Amounts are written in Wad units, and the example venues report balances in Wad units
  as well.
\<close>

definition kraken_example :: "int kraken_keeper" where
  "kraken_example =
     \<lparr>kraken_pair_arg = ''XBTEUR'',
      assets = [(''XXBT'', ''XBT''), (''ZEUR'', ''EUR'')],
      pair_precision = 1,
      kraken_from_number = (\<lambda>n. n),
      wad_round = (\<lambda>w d. w),
      kraken_api_place_order = (\<lambda>p s pr a. if 0 < a then Inr ''OID'' else Inl VenueError)\<rparr>"

definition etoro_example :: "int etoro_keeper" where
  "etoro_example =
     \<lparr>etoro_pair_arg = ''ETH_USD'',
      etoro_from_number = (\<lambda>n. n),
      etoro_api_place_order = (\<lambda>p s pr a. if 0 < a then Inr ''17'' else Inl VenueError),
      now = ''2019-06-01T00:00:00+00:00''\<rparr>"

definition kraken_buy_example :: kraken_order where
  "kraken_buy_example =
     \<lparr>order_id = ''A'', order_pair = ''XBTEUR'', is_sell = False, price = 2, amount = 5,
      filled_amount = 0\<rparr>"

definition etoro_sell_example :: etoro_order where
  "etoro_sell_example =
     \<lparr>order_id = ''B'', order_pair = ''ethusd'', is_sell = True, price = 200, amount = 1,
      timestamp = ''2019-06-01T00:00:00+00:00''\<rparr>"

text \<open>The pay-side amount of an example order: a buy order pays amount times price.\<close>

definition pay_side_example :: "kraken_order \<Rightarrow> wad" where
  "pay_side_example order = (if is_sell order then amount order else amount order * price order)"

text \<open>A policy that finds every open order stale, and one that finds none.\<close>

definition cancel_all :: "('o, unit, unit) bands" where
  "cancel_all =
     \<lparr>cancellable_orders = (\<lambda>buys sells p. buys @ sells),
      new_orders = (\<lambda>buys sells bb sb p. ([], ()))\<rparr>"

definition cancel_none :: "('o, unit, unit) bands" where
  "cancel_none =
     \<lparr>cancellable_orders = (\<lambda>buys sells p. []),
      new_orders = (\<lambda>buys sells bb sb p.
        ([\<lparr>new_is_sell = False, new_price = 2, pay_amount = bb, buy_amount = 1\<rparr>,
          \<lparr>new_is_sell = True, new_price = 3, pay_amount = sb, buy_amount = 1\<rparr>], ()))\<rparr>"

definition kraken_book_example :: "bool \<Rightarrow> (kraken_order, string \<rightharpoonup> int) order_book" where
  "kraken_book_example placing =
     \<lparr>orders = [kraken_buy_example], balances = [''ZEUR'' \<mapsto> 5, ''XXBT'' \<mapsto> 1],
      orders_being_placed = placing, orders_being_cancelled = False\<rparr>"

definition etoro_book_example :: "bool \<Rightarrow> (etoro_order, int etoro_balance list) order_book" where
  "etoro_book_example placing =
     \<lparr>orders = [etoro_sell_example],
      balances = [\<lparr>currency = ''eth'', balance = 3\<rparr>, \<lparr>currency = ''usd'', balance = 40\<rparr>],
      orders_being_placed = placing, orders_being_cancelled = False\<rparr>"

text \<open>
  A pool keeper with feed price 100 and a one percent band, holding 1005 tokens and
  10.02 ether, at a given pool price and liquidity position; and a pool keeper with
  every reading given.
\<close>

definition uniswap_example :: "rat \<Rightarrow> int \<Rightarrow> uniswap_keeper" where
  "uniswap_example pool_price position =
     \<lparr>feed_price = Finite 100, uniswap_price = Finite pool_price,
      percentage_difference = Finite 1,
      token = ''0x89d24A6b4CcB1B6fAA2625fE562bDD9a23260359'',
      token_balance_value = 1005 * 10 ^ 18,
      eth_balance_wei = 1002 * 10 ^ 16,
      liquidity_tokens = position\<rparr>"

definition uniswap_case ::
  "pyfloat \<Rightarrow> pyfloat \<Rightarrow> pyfloat \<Rightarrow> 256 word \<Rightarrow> 256 word \<Rightarrow> int \<Rightarrow> uniswap_keeper" where
  "uniswap_case feed pool percentage tokens wei position =
     \<lparr>feed_price = feed, uniswap_price = pool, percentage_difference = percentage,
      token = ''0x89d24A6b4CcB1B6fAA2625fE562bDD9a23260359'',
      token_balance_value = tokens, eth_balance_wei = wei, liquidity_tokens = position\<rparr>"

section \<open>Properties\<close>

subsection \<open>Evaluation of the examples\<close>

lemmas example_defs = kraken_example_def etoro_example_def kraken_buy_example_def
  etoro_sell_example_def pay_side_example_def cancel_all_def cancel_none_def
  kraken_book_example_def etoro_book_example_def

lemmas kraken_defs = kraken_synchronize_orders_def kraken_our_buy_orders_def
  kraken_our_sell_orders_def kraken_our_buy_balance_def kraken_our_sell_balance_def
  kraken_our_available_balance_def kraken_token_buy_def kraken_token_sell_def total_amount_def

lemmas etoro_defs = etoro_synchronize_orders_def etoro_our_buy_orders_def
  etoro_our_sell_orders_def etoro_our_buy_balance_def etoro_our_sell_balance_def
  etoro_our_available_balance_def etoro_token_buy_def etoro_token_sell_def index_def

lemma etoro_example_tokens:
  "etoro_token_buy etoro_example = Inr ''usd''"
  "etoro_token_sell etoro_example = Inr ''eth''"
  by (code_simp, code_simp)

lemma uniswap_example_runs:
  "place_liquidity (uniswap_example (201 / 2) 0) =
     Inr [AddLiquidity ''0x89d24A6b4CcB1B6fAA2625fE562bDD9a23260359''
            9500000000000000000 4750000000000000000]"
  "place_liquidity (uniswap_example 102 7) =
     Inr [RemoveLiquidity ''0x89d24A6b4CcB1B6fAA2625fE562bDD9a23260359'' 7]"
  "place_liquidity (uniswap_example 101 7) = Inr []"
  by code_simp+

subsection \<open>The reconciliation tick\<close>

text \<open>
  C1. In every tick of \<open>synchronize_orders\<close>, of the Kraken and of the eToro keeper, if the
  policy's \<open>cancellable_orders\<close> is non-empty, the tick makes one call, \<open>cancel_orders\<close>
  with exactly that result, and ends: no order is placed in that tick.
\<close>

theorem cancel_precedes_place:
  "(cancellable_orders kb (kraken_our_buy_orders (orders ko))
       (kraken_our_sell_orders (orders ko)) kp \<noteq> [] \<longrightarrow>
     kraken_synchronize_orders k pay_side kb ko kp =
       [CancelOrders (cancellable_orders kb (kraken_our_buy_orders (orders ko))
                        (kraken_our_sell_orders (orders ko)) kp)]
     \<and> filter is_place (kraken_synchronize_orders k pay_side kb ko kp) = [])
   \<and> (cancellable_orders eb (etoro_our_buy_orders (orders eo))
       (etoro_our_sell_orders (orders eo)) ep \<noteq> [] \<longrightarrow>
     etoro_synchronize_orders e eb eo ep =
       Inr [CancelOrders (cancellable_orders eb (etoro_our_buy_orders (orders eo))
                            (etoro_our_sell_orders (orders eo)) ep)]
     \<and> filter is_place (calls_made (etoro_synchronize_orders e eb eo ep)) = [])"
  by (simp add: kraken_synchronize_orders_def etoro_synchronize_orders_def calls_made_def
      Let_def)

text \<open>
  The same at a snapshot with one open order and a policy that finds it stale: the tick
  of either keeper is the single cancellation of that order.
\<close>

theorem cancel_precedes_place_witness:
  "cancellable_orders cancel_all (kraken_our_buy_orders (orders (kraken_book_example False)))
       (kraken_our_sell_orders (orders (kraken_book_example False))) () \<noteq> []
   \<and> kraken_synchronize_orders kraken_example pay_side_example cancel_all
        (kraken_book_example False) () = [CancelOrders [kraken_buy_example]]
   \<and> cancellable_orders cancel_all (etoro_our_buy_orders (orders (etoro_book_example False)))
       (etoro_our_sell_orders (orders (etoro_book_example False))) () \<noteq> []
   \<and> etoro_synchronize_orders etoro_example cancel_all
        (etoro_book_example False) () = Inr [CancelOrders [etoro_sell_example]]"
  using cancel_precedes_place [of cancel_all "kraken_book_example False" "()"
      kraken_example pay_side_example cancel_all "etoro_book_example False" "()" etoro_example]
  by (simp add: example_defs kraken_our_buy_orders_def kraken_our_sell_orders_def
      etoro_our_buy_orders_def etoro_our_sell_orders_def)

text \<open>
  C2, as stated, fails: with \<open>orders_being_placed\<close> set and a policy that finds the open
  order stale, the tick of the Kraken keeper still cancels that order. The check of the
  cancellable orders comes before the check of the two flags.
\<close>

theorem gate_does_not_stop_cancel_counterexample:
  "orders_being_placed (kraken_book_example True)
   \<and> kraken_synchronize_orders kraken_example pay_side_example cancel_all
        (kraken_book_example True) () = [CancelOrders [kraken_buy_example]]
   \<and> filter is_cancel (kraken_synchronize_orders kraken_example pay_side_example cancel_all
        (kraken_book_example True) ()) \<noteq> []"
  by (simp add: example_defs kraken_synchronize_orders_def kraken_our_buy_orders_def
      kraken_our_sell_orders_def)

text \<open>
  C2, amended. In every tick of \<open>synchronize_orders\<close>, of either keeper, if
  \<open>orders_being_placed\<close> or \<open>orders_being_cancelled\<close> is set, no order is placed,
  whatever the policy returns; the tick is the cancellation of the policy's cancellable
  orders when there are any, and no call at all otherwise.
\<close>

theorem gate_stops_place:
  "(orders_being_placed ko \<or> orders_being_cancelled ko \<longrightarrow>
      filter is_place (kraken_synchronize_orders k pay_side kb ko kp) = []
      \<and> kraken_synchronize_orders k pay_side kb ko kp =
          (let cancellable = cancellable_orders kb (kraken_our_buy_orders (orders ko))
                               (kraken_our_sell_orders (orders ko)) kp
           in if cancellable \<noteq> [] then [CancelOrders cancellable] else []))
   \<and> (orders_being_placed eo \<or> orders_being_cancelled eo \<longrightarrow>
      filter is_place (calls_made (etoro_synchronize_orders e eb eo ep)) = []
      \<and> etoro_synchronize_orders e eb eo ep =
          (let cancellable = cancellable_orders eb (etoro_our_buy_orders (orders eo))
                               (etoro_our_sell_orders (orders eo)) ep
           in if cancellable \<noteq> [] then Inr [CancelOrders cancellable] else Inr []))"
  by (simp add: kraken_synchronize_orders_def etoro_synchronize_orders_def calls_made_def
      Let_def)

text \<open>
  The same at snapshots with \<open>orders_being_placed\<close> set and a policy that would place two
  orders: the tick of either keeper makes no call.
\<close>

theorem gate_stops_place_witness:
  "orders_being_placed (kraken_book_example True)
   \<and> kraken_synchronize_orders kraken_example pay_side_example cancel_none
        (kraken_book_example True) () = []
   \<and> orders_being_placed (etoro_book_example True)
   \<and> etoro_synchronize_orders etoro_example cancel_none (etoro_book_example True) () = Inr []"
  using gate_stops_place [of "kraken_book_example True" kraken_example pay_side_example
      cancel_none "()" "etoro_book_example True" etoro_example cancel_none "()"]
  by (simp add: example_defs)

subsection \<open>The balances handed to the policy\<close>

text \<open>
  C3, as stated, fails: on Kraken, with 5 reported for the buy token and one open buy
  order whose pay-side amount is 10, the buy balance of the tick is \<open>5 - 10 = -5\<close>, not
  \<open>max (5 - 10) 0\<close>, and the policy is called with that negative balance (the example
  policy offers it as the pay amount of its first order).
\<close>

theorem kraken_balance_negative_counterexample:
  "kraken_our_available_balance kraken_example (balances (kraken_book_example False))
       (kraken_token_buy kraken_example) = 5
   \<and> total_amount pay_side_example
       (kraken_our_buy_orders (orders (kraken_book_example False))) = 10
   \<and> kraken_our_buy_balance kraken_example pay_side_example (kraken_book_example False) = - 5
   \<and> kraken_our_buy_balance kraken_example pay_side_example (kraken_book_example False)
       \<noteq> max (5 - 10) 0
   \<and> kraken_synchronize_orders kraken_example pay_side_example cancel_none
        (kraken_book_example False) () =
       [PlaceOrder (Task \<lparr>new_is_sell = False, new_price = 2, pay_amount = - 5, buy_amount = 1\<rparr>),
        PlaceOrder (Task \<lparr>new_is_sell = True, new_price = 3, pay_amount = 1, buy_amount = 1\<rparr>)]"
  by (simp add: example_defs kraken_defs)

text \<open>
  C3, amended. In a tick of the Kraken keeper that reaches the policy's \<open>new_orders\<close>,
  the balance passed for each side is the raw balance of the side's token minus the
  locked amount (the sum of the pay-side amounts of the open orders of that side), with
  no lower bound: it equals \<open>max (raw - locked) 0\<close> exactly when the locked amount is at
  most the raw balance. In a tick of the eToro keeper that reaches \<open>new_orders\<close>, the
  balance passed for each side is the balance of the first entry the venue reports for
  the side's token, with nothing subtracted.
\<close>

theorem available_balance_unclamped:
  "(cancellable_orders kb (kraken_our_buy_orders (orders ko))
        (kraken_our_sell_orders (orders ko)) kp = []
      \<and> \<not> orders_being_placed ko \<and> \<not> orders_being_cancelled ko \<longrightarrow>
    kraken_synchronize_orders k pay_side kb ko kp =
      kraken_place_orders
        (fst (new_orders kb (kraken_our_buy_orders (orders ko))
                (kraken_our_sell_orders (orders ko))
                (kraken_our_available_balance k (balances ko) (kraken_token_buy k)
                   - total_amount pay_side (kraken_our_buy_orders (orders ko)))
                (kraken_our_available_balance k (balances ko) (kraken_token_sell k)
                   - total_amount pay_side (kraken_our_sell_orders (orders ko)))
                kp)))
   \<and> (kraken_our_buy_balance k pay_side ko =
         max (kraken_our_available_balance k (balances ko) (kraken_token_buy k)
                - total_amount pay_side (kraken_our_buy_orders (orders ko))) 0)
       = (total_amount pay_side (kraken_our_buy_orders (orders ko))
            \<le> kraken_our_available_balance k (balances ko) (kraken_token_buy k))
   \<and> (kraken_our_sell_balance k pay_side ko =
         max (kraken_our_available_balance k (balances ko) (kraken_token_sell k)
                - total_amount pay_side (kraken_our_sell_orders (orders ko))) 0)
       = (total_amount pay_side (kraken_our_sell_orders (orders ko))
            \<le> kraken_our_available_balance k (balances ko) (kraken_token_sell k))
   \<and> (cancellable_orders eb (etoro_our_buy_orders (orders eo))
        (etoro_our_sell_orders (orders eo)) ep = []
      \<and> \<not> orders_being_placed eo \<and> \<not> orders_being_cancelled eo
      \<and> etoro_token_buy e = Inr tb \<and> etoro_token_sell e = Inr ts
      \<and> filter (\<lambda>x. currency x = tb) (balances eo) = xb # rb
      \<and> filter (\<lambda>x. currency x = ts) (balances eo) = xs # rs \<longrightarrow>
    etoro_synchronize_orders e eb eo ep =
      Inr (etoro_place_orders
        (fst (new_orders eb (etoro_our_buy_orders (orders eo))
                (etoro_our_sell_orders (orders eo))
                (etoro_from_number e (balance xb)) (etoro_from_number e (balance xs)) ep))))"
proof -
  have k: "kraken_synchronize_orders k pay_side kb ko kp =
      kraken_place_orders
        (fst (new_orders kb (kraken_our_buy_orders (orders ko))
                (kraken_our_sell_orders (orders ko))
                (kraken_our_available_balance k (balances ko) (kraken_token_buy k)
                   - total_amount pay_side (kraken_our_buy_orders (orders ko)))
                (kraken_our_available_balance k (balances ko) (kraken_token_sell k)
                   - total_amount pay_side (kraken_our_sell_orders (orders ko)))
                kp))"
    if "cancellable_orders kb (kraken_our_buy_orders (orders ko))
        (kraken_our_sell_orders (orders ko)) kp = []"
      "\<not> orders_being_placed ko" "\<not> orders_being_cancelled ko"
    using that
    by (simp add: kraken_synchronize_orders_def kraken_our_buy_balance_def
        kraken_our_sell_balance_def Let_def)
  have e: "etoro_synchronize_orders e eb eo ep =
      Inr (etoro_place_orders
        (fst (new_orders eb (etoro_our_buy_orders (orders eo))
                (etoro_our_sell_orders (orders eo))
                (etoro_from_number e (balance xb)) (etoro_from_number e (balance xs)) ep)))"
    if "cancellable_orders eb (etoro_our_buy_orders (orders eo))
        (etoro_our_sell_orders (orders eo)) ep = []"
      "\<not> orders_being_placed eo" "\<not> orders_being_cancelled eo"
      "etoro_token_buy e = Inr tb" "etoro_token_sell e = Inr ts"
      "filter (\<lambda>x. currency x = tb) (balances eo) = xb # rb"
      "filter (\<lambda>x. currency x = ts) (balances eo) = xs # rs"
    using that
    by (simp add: etoro_synchronize_orders_def etoro_our_buy_balance_def
        etoro_our_sell_balance_def etoro_our_available_balance_def index_def Let_def)
  have b: "(kraken_our_buy_balance k pay_side ko =
         max (kraken_our_available_balance k (balances ko) (kraken_token_buy k)
                - total_amount pay_side (kraken_our_buy_orders (orders ko))) 0)
       = (total_amount pay_side (kraken_our_buy_orders (orders ko))
            \<le> kraken_our_available_balance k (balances ko) (kraken_token_buy k))"
    unfolding kraken_our_buy_balance_def by linarith
  have s: "(kraken_our_sell_balance k pay_side ko =
         max (kraken_our_available_balance k (balances ko) (kraken_token_sell k)
                - total_amount pay_side (kraken_our_sell_orders (orders ko))) 0)
       = (total_amount pay_side (kraken_our_sell_orders (orders ko))
            \<le> kraken_our_available_balance k (balances ko) (kraken_token_sell k))"
    unfolding kraken_our_sell_balance_def by linarith
  from k e b s show ?thesis by blast
qed

text \<open>
  The same at snapshots without stale orders and without pending operations: Kraken
  passes \<open>5 - 10\<close> and \<open>1 - 0\<close>, eToro passes the reported 40 and 3.
\<close>

theorem available_balance_unclamped_witness:
  "kraken_synchronize_orders kraken_example pay_side_example cancel_none
        (kraken_book_example False) () =
     kraken_place_orders
       [\<lparr>new_is_sell = False, new_price = 2, pay_amount = 5 - 10, buy_amount = 1\<rparr>,
        \<lparr>new_is_sell = True, new_price = 3, pay_amount = 1 - 0, buy_amount = 1\<rparr>]
   \<and> etoro_synchronize_orders etoro_example cancel_none (etoro_book_example False) () =
     Inr (etoro_place_orders
       [\<lparr>new_is_sell = False, new_price = 2, pay_amount = 40, buy_amount = 1\<rparr>,
        \<lparr>new_is_sell = True, new_price = 3, pay_amount = 3, buy_amount = 1\<rparr>])"
  using available_balance_unclamped [of cancel_none "kraken_book_example False" "()"
      kraken_example pay_side_example cancel_none "etoro_book_example False" "()"
      etoro_example "''usd''" "''eth''" "\<lparr>currency = ''usd'', balance = 40\<rparr>" "[]"
      "\<lparr>currency = ''eth'', balance = 3\<rparr>" "[]"]
  using etoro_example_tokens
  by (simp add: example_defs kraken_defs etoro_our_buy_orders_def etoro_our_sell_orders_def)


text \<open>
  C6. The balance lookup of the eToro keeper raises IndexError for a currency that the
  reported balances do not hold, and the tick that needs the balance raises with it; the
  lookup of the Kraken keeper returns zero for an absent currency.
\<close>

theorem etoro_absent_currency_raises:
  "etoro_our_available_balance etoro_example [\<lparr>currency = ''usd'', balance = 40\<rparr>] ''eth''
     = Inl IndexError
   \<and> etoro_synchronize_orders etoro_example cancel_none
       \<lparr>orders = [], balances = [\<lparr>currency = ''usd'', balance = 40\<rparr>],
        orders_being_placed = False, orders_being_cancelled = False\<rparr> () = Inl IndexError
   \<and> kraken_our_available_balance kraken_example [''ZEUR'' \<mapsto> 40] ''XBT'' = 0"
  using etoro_example_tokens
  by (simp add: example_defs etoro_defs kraken_our_available_balance_def)

text \<open>
  On Kraken the lookup returns \<open>Wad.from_number(0)\<close> whenever no asset with the token's
  altname has a balance.
\<close>

lemma kraken_balance_loop_absent:
  assumes "\<And>symbol altname. (symbol, altname) \<in> set asset_list \<Longrightarrow> altname = tok \<Longrightarrow>
             our_balances symbol = None"
  shows "kraken_balance_loop from_number asset_list our_balances tok = from_number 0"
  using assms by (induction asset_list) auto

lemma kraken_absent_currency_zero:
  assumes "\<And>symbol altname. (symbol, altname) \<in> set (assets k) \<Longrightarrow> altname = tok \<Longrightarrow>
             our_balances symbol = None"
  shows "kraken_our_available_balance k our_balances tok = kraken_from_number k 0"
  unfolding kraken_our_available_balance_def
  using assms by (rule kraken_balance_loop_absent)

subsection \<open>Scheduling the submissions\<close>

lemma scheduled_kraken_place_orders: "scheduled (kraken_place_orders ns) = map Task ns"
  by (induction ns) simp_all

lemma scheduled_etoro_place_orders: "scheduled (etoro_place_orders ns) = map Task ns"
  by (induction ns) simp_all

lemma length_kraken_place_orders: "length (kraken_place_orders ns) = length ns"
  by (induction ns) simp_all

lemma length_etoro_place_orders: "length (etoro_place_orders ns) = length ns"
  by (induction ns) simp_all

lemma no_cancel_kraken_place_orders: "filter is_cancel (kraken_place_orders ns) = []"
  by (induction ns) simp_all

lemma no_cancel_etoro_place_orders: "filter is_cancel (etoro_place_orders ns) = []"
  by (induction ns) simp_all

lemma run_scheduled_tasks:
  "run_scheduled f loop_variable calls = map f ns" if "scheduled calls = map Task ns"
  using that by (simp add: run_scheduled_def comp_def)

text \<open>
  C4. For every list of N new orders, \<open>place_orders\<close> of either keeper makes exactly N
  calls, all of them \<open>place_order\<close>, and the task of the i-th call is bound to the i-th
  order when it is created: none reads the loop variable later. Called by the worker
  pool, whatever the loop variable holds by then, the i-th task submits the i-th order's
  own fields to the venue: on Kraken the upper-case pair, the order's side, its price
  rounded to the pair's precision and its pay amount (sell) or buy amount (buy); on eToro
  the joined lower-case pair, \<open>sell\<close> or \<open>buy\<close>, the order's price and the same
  amount. Each task gives its own outcome, the venue's error or the placed order,
  whether or not the submission of another order failed.
\<close>

theorem place_orders_one_task_per_order:
  "length (kraken_place_orders ns) = length ns
   \<and> filter is_cancel (kraken_place_orders ns) = []
   \<and> scheduled (kraken_place_orders ns) = map Task ns
   \<and> run_scheduled (kraken_place_order_function k) kv (kraken_place_orders ns)
       = map (\<lambda>n.
           case kraken_api_place_order k (upper (kraken_pair_arg k)) (new_is_sell n)
                  (wad_round k (new_price n) (pair_precision k))
                  (if new_is_sell n then pay_amount n else buy_amount n) of
             Inl err \<Rightarrow> Inl err
           | Inr oid \<Rightarrow>
               Inr \<lparr>order_id = oid, order_pair = upper (kraken_pair_arg k),
                    is_sell = new_is_sell n,
                    price = wad_round k (new_price n) (pair_precision k),
                    amount = (if new_is_sell n then pay_amount n else buy_amount n),
                    filled_amount = 0\<rparr>) ns
   \<and> length (etoro_place_orders ns) = length ns
   \<and> filter is_cancel (etoro_place_orders ns) = []
   \<and> scheduled (etoro_place_orders ns) = map Task ns
   \<and> run_scheduled (etoro_place_order_function e) ev (etoro_place_orders ns)
       = map (\<lambda>n.
           case etoro_api_place_order e
                  (lower (concat (split_char (CHR ''_'') (lower (etoro_pair_arg e)))))
                  (if new_is_sell n then ''sell'' else ''buy'')
                  (new_price n)
                  (if new_is_sell n then pay_amount n else buy_amount n) of
             Inl err \<Rightarrow> Inl err
           | Inr oid \<Rightarrow>
               Inr \<lparr>order_id = oid,
                    order_pair = lower (concat (split_char (CHR ''_'') (lower (etoro_pair_arg e)))),
                    is_sell = new_is_sell n,
                    price = new_price n,
                    amount = (if new_is_sell n then pay_amount n else buy_amount n),
                    timestamp = now e\<rparr>) ns"
proof -
  have kr: "kraken_place_order_function k = (\<lambda>n.
           case kraken_api_place_order k (upper (kraken_pair_arg k)) (new_is_sell n)
                  (wad_round k (new_price n) (pair_precision k))
                  (if new_is_sell n then pay_amount n else buy_amount n) of
             Inl err \<Rightarrow> Inl err
           | Inr oid \<Rightarrow>
               Inr \<lparr>order_id = oid, order_pair = upper (kraken_pair_arg k),
                    is_sell = new_is_sell n,
                    price = wad_round k (new_price n) (pair_precision k),
                    amount = (if new_is_sell n then pay_amount n else buy_amount n),
                    filled_amount = 0\<rparr>)"
    by (rule ext)
      (simp add: kraken_place_order_function_def kraken_pair_def Let_def split: sum.splits)
  have et: "etoro_place_order_function e = (\<lambda>n.
           case etoro_api_place_order e
                  (lower (concat (split_char (CHR ''_'') (lower (etoro_pair_arg e)))))
                  (if new_is_sell n then ''sell'' else ''buy'')
                  (new_price n)
                  (if new_is_sell n then pay_amount n else buy_amount n) of
             Inl err \<Rightarrow> Inl err
           | Inr oid \<Rightarrow>
               Inr \<lparr>order_id = oid,
                    order_pair = lower (concat (split_char (CHR ''_'') (lower (etoro_pair_arg e)))),
                    is_sell = new_is_sell n,
                    price = new_price n,
                    amount = (if new_is_sell n then pay_amount n else buy_amount n),
                    timestamp = now e\<rparr>)"
    by (rule ext)
      (simp add: etoro_place_order_function_def etoro_pair_def join_string_def Let_def
        split: sum.splits)
  have krun: "run_scheduled (kraken_place_order_function k) kv (kraken_place_orders ns)
      = map (kraken_place_order_function k) ns"
    by (rule run_scheduled_tasks) (rule scheduled_kraken_place_orders)
  have erun: "run_scheduled (etoro_place_order_function e) ev (etoro_place_orders ns)
      = map (etoro_place_order_function e) ns"
    by (rule run_scheduled_tasks) (rule scheduled_etoro_place_orders)
  show ?thesis
    unfolding krun erun
    unfolding kr et
    by (simp add: scheduled_kraken_place_orders scheduled_etoro_place_orders
        length_kraken_place_orders length_etoro_place_orders no_cancel_kraken_place_orders
        no_cancel_etoro_place_orders)
qed

text \<open>
  The same on the example venues, which reject a zero amount, for a buy order of amount
  zero followed by a sell order, run while the loop variable holds the second order: the
  first submission fails, the second is attempted all the same, and each placed order
  carries the fields of its own new order.
\<close>

theorem place_orders_one_task_per_order_witness:
  "run_scheduled (kraken_place_order_function kraken_example)
     \<lparr>new_is_sell = True, new_price = 3, pay_amount = 1, buy_amount = 7\<rparr>
     (kraken_place_orders
        [\<lparr>new_is_sell = False, new_price = 2, pay_amount = 4, buy_amount = 0\<rparr>,
         \<lparr>new_is_sell = True, new_price = 3, pay_amount = 1, buy_amount = 7\<rparr>])
   = [Inl VenueError,
      Inr \<lparr>order_id = ''OID'', order_pair = ''XBTEUR'', is_sell = True, price = 3, amount = 1,
           filled_amount = 0\<rparr>]
   \<and> run_scheduled (etoro_place_order_function etoro_example)
     \<lparr>new_is_sell = False, new_price = 2, pay_amount = 4, buy_amount = 0\<rparr>
     (etoro_place_orders
        [\<lparr>new_is_sell = True, new_price = 3, pay_amount = 1, buy_amount = 7\<rparr>,
         \<lparr>new_is_sell = False, new_price = 2, pay_amount = 4, buy_amount = 0\<rparr>])
   = [Inr \<lparr>order_id = ''17'', order_pair = ''ethusd'', is_sell = True, price = 3, amount = 1,
           timestamp = ''2019-06-01T00:00:00+00:00''\<rparr>,
      Inl VenueError]"
proof -
  have pairs: "upper ''XBTEUR'' = ''XBTEUR''"
    "lower (concat (split_char (CHR ''_'') (lower ''ETH_USD''))) = ''ethusd''"
    by (code_simp, code_simp)
  show ?thesis
    using place_orders_one_task_per_order [of
        "[\<lparr>new_is_sell = False, new_price = 2, pay_amount = 4, buy_amount = 0\<rparr>,
          \<lparr>new_is_sell = True, new_price = 3, pay_amount = 1, buy_amount = 7\<rparr>]"
        kraken_example
        "\<lparr>new_is_sell = True, new_price = 3, pay_amount = 1, buy_amount = 7\<rparr>"
        etoro_example
        "\<lparr>new_is_sell = False, new_price = 2, pay_amount = 4, buy_amount = 0\<rparr>"]
      place_orders_one_task_per_order [of
        "[\<lparr>new_is_sell = True, new_price = 3, pay_amount = 1, buy_amount = 7\<rparr>,
          \<lparr>new_is_sell = False, new_price = 2, pay_amount = 4, buy_amount = 0\<rparr>]"
        kraken_example
        "\<lparr>new_is_sell = True, new_price = 3, pay_amount = 1, buy_amount = 7\<rparr>"
        etoro_example
        "\<lparr>new_is_sell = False, new_price = 2, pay_amount = 4, buy_amount = 0\<rparr>"]
    by (simp add: pairs kraken_example_def etoro_example_def)
qed

subsection \<open>Orders by side, and the tokens of a pair\<close>

lemma mset_filter_split: "mset (filter (\<lambda>x. \<not> P x) xs @ filter P xs) = mset xs"
  by (induction xs) simp_all

text \<open>
  C9. For every list of orders, \<open>our_buy_orders\<close> and \<open>our_sell_orders\<close> partition it, in
  both keepers: the two results taken together hold every order as often as the input
  does, no order is in both, an order is among the sell orders exactly when it is in the
  input with \<open>is_sell\<close> set and among the buy orders exactly when it is in the input with
  \<open>is_sell\<close> unset. Both are total functions of the list, so the partition is
  deterministic.
\<close>

theorem our_orders_partition:
  "mset (kraken_our_buy_orders ks @ kraken_our_sell_orders ks) = mset ks
   \<and> set (kraken_our_buy_orders ks) \<inter> set (kraken_our_sell_orders ks) = {}
   \<and> (k \<in> set (kraken_our_sell_orders ks)) = (k \<in> set ks \<and> is_sell k)
   \<and> (k \<in> set (kraken_our_buy_orders ks)) = (k \<in> set ks \<and> \<not> is_sell k)
   \<and> mset (etoro_our_buy_orders es @ etoro_our_sell_orders es) = mset es
   \<and> set (etoro_our_buy_orders es) \<inter> set (etoro_our_sell_orders es) = {}
   \<and> (e \<in> set (etoro_our_sell_orders es)) = (e \<in> set es \<and> is_sell e)
   \<and> (e \<in> set (etoro_our_buy_orders es)) = (e \<in> set es \<and> \<not> is_sell e)"
proof -
  have km: "mset (kraken_our_buy_orders ks @ kraken_our_sell_orders ks) = mset ks"
    unfolding kraken_our_buy_orders_def kraken_our_sell_orders_def
    by (rule mset_filter_split)
  have em: "mset (etoro_our_buy_orders es @ etoro_our_sell_orders es) = mset es"
    unfolding etoro_our_buy_orders_def etoro_our_sell_orders_def
    by (rule mset_filter_split)
  have kd: "set (kraken_our_buy_orders ks) \<inter> set (kraken_our_sell_orders ks) = {}"
    by (auto simp: kraken_our_buy_orders_def kraken_our_sell_orders_def)
  have ed: "set (etoro_our_buy_orders es) \<inter> set (etoro_our_sell_orders es) = {}"
    by (auto simp: etoro_our_buy_orders_def etoro_our_sell_orders_def)
  show ?thesis
    using km em kd ed
    by (simp add: kraken_our_buy_orders_def kraken_our_sell_orders_def
        etoro_our_buy_orders_def etoro_our_sell_orders_def)
qed

text \<open>
  C10. For every pair argument \<open>p\<close> of the Kraken keeper, \<open>token_sell\<close> is the first three
  characters of \<open>p\<close> and \<open>token_buy\<close> the rest, so the two concatenated give \<open>p\<close> back.
  For a pair written as a base symbol followed by a non-empty quote symbol, the split
  returns that base and that quote exactly when the base has three characters.
\<close>

theorem kraken_token_split:
  "kraken_token_sell k = take 3 (kraken_pair_arg k)
   \<and> kraken_token_buy k = drop 3 (kraken_pair_arg k)
   \<and> kraken_token_sell k @ kraken_token_buy k = kraken_pair_arg k
   \<and> (quote \<noteq> [] \<and> kraken_pair_arg k = base @ quote \<longrightarrow>
        (kraken_token_sell k = base \<and> kraken_token_buy k = quote) = (length base = 3))"
proof -
  have "(take 3 (base @ quote) = base \<and> drop 3 (base @ quote) = quote) = (length base = 3)"
    if "quote \<noteq> []"
  proof
    assume h: "take 3 (base @ quote) = base \<and> drop 3 (base @ quote) = quote"
    then have "length (take 3 (base @ quote)) = length base" by simp
    then have le: "length base \<le> 3" by simp
    from h have "length (drop 3 (base @ quote)) = length quote" by simp
    then have "length base + length quote - 3 = length quote" by simp
    with that le show "length base = 3"
      by (cases quote) auto
  next
    assume "length base = 3"
    then show "take 3 (base @ quote) = base \<and> drop 3 (base @ quote) = quote" by simp
  qed
  then show ?thesis
    by (auto simp: kraken_token_sell_def kraken_token_buy_def)
qed

text \<open>
  The same at the pair \<open>XBTEUR\<close>, base \<open>XBT\<close> and quote \<open>EUR\<close>.
\<close>

theorem kraken_token_split_witness:
  "''EUR'' \<noteq> [] \<and> kraken_pair_arg kraken_example = ''XBT'' @ ''EUR''
   \<and> kraken_token_sell kraken_example = ''XBT'' \<and> kraken_token_buy kraken_example = ''EUR''"
  using kraken_token_split [of kraken_example "''EUR''" "''XBT''"]
  by (simp add: kraken_example_def)


subsection \<open>The pool rebalancing tick\<close>

text \<open>
  Facts about the floats: \<open><\<close> is irreflexive and asymmetric, also on the
  infinities and NaN; a value below \<open>2^256\<close> rounds to a finite float, so dividing an
  unsigned 256-bit balance by \<open>ONE_ETH\<close> never raises.
\<close>

lemma flt_asym: "flt a b \<Longrightarrow> \<not> flt b a"
  by (cases a; cases b) auto


lemma exponent_bound:
  assumes "0 < x" "x < 2 ^ 256"
  shows "exponent x \<le> 257"
proof -
  define p where "p = fst (quotient_of x)"
  define q where "q = snd (quotient_of x)"
  have q: "0 < q"
    unfolding q_def by (rule quotient_of_denom_pos')
  have x: "x = of_int p / of_int q"
    unfolding p_def q_def by (rule quotient_of_div) simp
  have p: "0 < p"
    using assms(1) q by (simp add: x zero_less_divide_iff)
  have "bitlen p - bitlen q \<le> 257"
  proof (rule ccontr)
    assume "\<not> bitlen p - bitlen q \<le> 257"
    then have big: "nat (bitlen q) + 257 \<le> nat (bitlen p - 1)"
      using bitlen_nonneg [of q] by linarith
    have "q * 2 ^ 257 < 2 ^ nat (bitlen q) * 2 ^ 257"
      using bitlen_bounds [OF q] by simp
    also have "\<dots> = 2 ^ (nat (bitlen q) + 257)"
      by (simp add: power_add)
    also have "\<dots> \<le> 2 ^ nat (bitlen p - 1)"
      using big by (simp add: power_increasing)
    also have "\<dots> \<le> p"
      using bitlen_bounds [OF p] by simp
    finally have "q * 2 ^ 257 < p" .
    then have "(of_int (q * 2 ^ 257) :: rat) < of_int p"
      by (simp only: of_int_less_iff)
    then have "(of_int q :: rat) * 2 ^ 257 < of_int p"
      by simp
    then have "(2 :: rat) ^ 257 < x"
      using q by (simp add: x pos_less_divide_eq mult.commute)
    with assms(2) show False
      by simp
  qed
  then show ?thesis
    by (simp add: exponent_def Let_def p_def q_def)
qed

lemma round64_finite:
  assumes "\<bar>x\<bar> < 2 ^ 256"
  shows "\<exists>f. round64 x = Finite f"
proof (cases "x = 0")
  case True
  then show ?thesis by (simp add: round64_def)
next
  case False
  then have "0 < \<bar>x\<bar>" by simp
  define e where "e = max (exponent \<bar>x\<bar>) (- 1022)"
  from exponent_bound [OF \<open>0 < \<bar>x\<bar>\<close> assms] have e: "e \<le> 257"
    by (simp add: e_def)
  have "round64 x =
      (if 1023 < e \<or> (e = 1023 \<and> 2 ^ 53 \<le> \<bar>round_half_even (x / pow2 (e - 52))\<bar>)
       then (if 0 < x then PosInf else NegInf)
       else Finite (of_int (round_half_even (x / pow2 (e - 52))) * pow2 (e - 52)))"
    unfolding round64_def Let_def e_def using False by (simp only: if_False)
  with e show ?thesis
    by simp
qed

lemma word_true_div:
  fixes w :: "256 word"
  shows "\<exists>f. int_true_div (uint w) ONE_ETH = Inr (Finite f)
             \<and> round64 (of_int (uint w) / 10 ^ 18) = Finite f"
proof -
  have "uint w < 2 ^ 256"
    using uint_bounded [of w] by simp
  then have "(of_int (uint w) :: rat) < 2 ^ 256"
    by (metis of_int_less_iff of_int_numeral of_int_power)
  moreover have "(0 :: rat) \<le> of_int (uint w)"
    unfolding of_int_0_le_iff by (rule uint_ge_0)
  ultimately have "\<bar>of_int (uint w) / 10 ^ 18 :: rat\<bar> < 2 ^ 256"
    by (simp add: divide_less_eq)
  from round64_finite [OF this] obtain f
    where f: "round64 (of_int (uint w) / 10 ^ 18) = Finite f" by blast
  then show ?thesis
    by (simp add: int_true_div_def ONE_ETH_def)
qed

lemma add_remove_exclusive: "add_liquidity u \<Longrightarrow> \<not> remove_liquidity u"
  by (simp add: add_liquidity_def remove_liquidity_def flt_asym)



lemma balances_finite:
  "token_balance u = Inr (round64 (of_int (uint (token_balance_value u)) / 10 ^ 18))"
  "eth_balance u = Inr (round64 (of_int (uint (eth_balance_wei u)) / 10 ^ 18))"
  using word_true_div [of "token_balance_value u"] word_true_div [of "eth_balance_wei u"]
  unfolding token_balance_def eth_balance_def by auto

lemma place_liquidity_no_add:
  assumes "\<not> add_liquidity u"
  shows "place_liquidity u =
     Inr (if remove_liquidity u \<and> 0 < liquidity_tokens u
          then [RemoveLiquidity (token u) (liquidity_tokens u)] else [])"
  using assms by (simp add: place_liquidity_def balances_finite Let_def)

lemma place_liquidity_add:
  assumes "add_liquidity u"
  shows "calls_made (place_liquidity u) =
     (if uniswap_price u \<noteq> Finite 0
         \<and> flt (Finite 0)
              (fsub (round64 (of_int (uint (eth_balance_wei u)) / 10 ^ 18)) (round64 (2 / 100)))
         \<and> liquidity_tokens u = 0
      then
        (case py_int (fmul
                (fmin (fsub (round64 (of_int (uint (eth_balance_wei u)) / 10 ^ 18))
                         (round64 (2 / 100)))
                      (fquot (fquot (fmul (round64 (of_int (uint (token_balance_value u))
                                               / 10 ^ 18)) (Finite 95)) (Finite 100))
                         (uniswap_price u)))
                (Finite (10 ^ 18))) of
           Inl e \<Rightarrow> []
         | Inr a \<Rightarrow>
             (case py_int (fmul (fmul (Finite (1 / 2))
                     (fmin (fsub (round64 (of_int (uint (eth_balance_wei u)) / 10 ^ 18))
                              (round64 (2 / 100)))
                           (fquot (fquot (fmul (round64 (of_int (uint (token_balance_value u))
                                                    / 10 ^ 18)) (Finite 95)) (Finite 100))
                              (uniswap_price u))))
                     (Finite (10 ^ 18))) of
                Inl e \<Rightarrow> []
              | Inr m \<Rightarrow> [AddLiquidity (token u) a m]))
      else [])"
proof -
  define L where
    "L = fsub (round64 (of_int (uint (eth_balance_wei u)) / 10 ^ 18)) (round64 (2 / 100))"
  define Q where
    "Q = fquot (fmul (round64 (of_int (uint (token_balance_value u)) / 10 ^ 18)) (Finite 95))
           (Finite 100)"
  define W where "W = Finite (of_int ONE_ETH)"
  have W: "W = Finite (10 ^ 18)"
    by (simp add: W_def ONE_ETH_def)
  have r: "\<not> remove_liquidity u"
    using assms by (rule add_remove_exclusive)
  have "place_liquidity u =
     (case py_fdiv (round64 (of_int (uint (token_balance_value u)) / 10 ^ 18))
             (uniswap_price u) of
        Inl e \<Rightarrow> Inl e
      | Inr calculated \<Rightarrow>
          (case py_fdiv Q (uniswap_price u) of
             Inl e \<Rightarrow> Inl e
           | Inr q \<Rightarrow>
               if flt (Finite 0) L \<and> liquidity_tokens u = 0
               then
                 (case py_int (fmul (fmin L q) W) of
                    Inl e \<Rightarrow> Inl e
                  | Inr max_eth \<Rightarrow>
                      (case py_int (fmul (fmul (Finite (1 / 2)) (fmin L q)) W) of
                         Inl e \<Rightarrow> Inl e
                       | Inr min_liquidity \<Rightarrow>
                           Inr [AddLiquidity (token u) max_eth min_liquidity]))
               else Inr []))"
    unfolding place_liquidity_def balances_finite sum.case Let_def L_def Q_def W_def
    using assms r by (auto split: sum.splits)
  then have "calls_made (place_liquidity u) =
     (if uniswap_price u \<noteq> Finite 0 \<and> flt (Finite 0) L \<and> liquidity_tokens u = 0
      then
        (case py_int (fmul (fmin L (fquot Q (uniswap_price u))) W) of
           Inl e \<Rightarrow> []
         | Inr a \<Rightarrow>
             (case py_int (fmul (fmul (Finite (1 / 2)) (fmin L (fquot Q (uniswap_price u)))) W) of
                Inl e \<Rightarrow> []
              | Inr m \<Rightarrow> [AddLiquidity (token u) a m]))
      else [])"
    by (simp add: calls_made_def py_fdiv_def split: sum.splits)
  then show ?thesis
    unfolding L_def Q_def W .
qed

lemma place_liquidity_add_cases:
  assumes "add_liquidity u"
  obtains (none) "calls_made (place_liquidity u) = []"
  | (add) a m where
      "calls_made (place_liquidity u) = [AddLiquidity (token u) a m]"
      "uniswap_price u \<noteq> Finite 0"
      "liquidity_tokens u = 0"
      "py_int (fmul
         (fmin (fsub (round64 (of_int (uint (eth_balance_wei u)) / 10 ^ 18))
                  (round64 (2 / 100)))
               (fquot (fquot (fmul (round64 (of_int (uint (token_balance_value u)) / 10 ^ 18))
                                (Finite 95)) (Finite 100))
                  (uniswap_price u)))
         (Finite (10 ^ 18))) = Inr a"
proof -
  define A where
    "A = py_int (fmul
         (fmin (fsub (round64 (of_int (uint (eth_balance_wei u)) / 10 ^ 18))
                  (round64 (2 / 100)))
               (fquot (fquot (fmul (round64 (of_int (uint (token_balance_value u)) / 10 ^ 18))
                                (Finite 95)) (Finite 100))
                  (uniswap_price u)))
         (Finite (10 ^ 18)))"
  define M where
    "M = py_int (fmul (fmul (Finite (1 / 2))
         (fmin (fsub (round64 (of_int (uint (eth_balance_wei u)) / 10 ^ 18))
                  (round64 (2 / 100)))
               (fquot (fquot (fmul (round64 (of_int (uint (token_balance_value u)) / 10 ^ 18))
                                (Finite 95)) (Finite 100))
                  (uniswap_price u))))
         (Finite (10 ^ 18)))"
  define C where
    "C \<longleftrightarrow> uniswap_price u \<noteq> Finite 0
         \<and> flt (Finite 0)
              (fsub (round64 (of_int (uint (eth_balance_wei u)) / 10 ^ 18)) (round64 (2 / 100)))
         \<and> liquidity_tokens u = 0"
  have eq: "calls_made (place_liquidity u) =
     (if C then (case A of Inl e \<Rightarrow> []
                 | Inr a \<Rightarrow> (case M of Inl e \<Rightarrow> [] | Inr m \<Rightarrow> [AddLiquidity (token u) a m]))
      else [])"
    unfolding A_def M_def C_def by (rule place_liquidity_add [OF assms])
  show thesis
  proof (cases C)
    case False
    with eq none show thesis by simp
  next
    case True
    then have c: "uniswap_price u \<noteq> Finite 0" "liquidity_tokens u = 0"
      unfolding C_def by blast+
    show thesis
    proof (cases A)
      case (Inl e)
      with eq True none show thesis by simp
    next
      case a: (Inr a)
      show thesis
      proof (cases M)
        case (Inl e)
        with eq True a none show thesis by simp
      next
        case (Inr m)
        with eq True a have "calls_made (place_liquidity u) = [AddLiquidity (token u) a m]"
          by simp
        then show thesis
          using c a unfolding A_def by (rule add)
      qed
    qed
  qed
qed




text \<open>
  C7, as stated, fails. With 3 tokens, 10.02 ether and pool price 3 the claimed amount
  \<open>min (10.02 - 0.02) (0.95 * 3 / 3)\<close> is 0.95 ether, that is 950000000000000000 wei,
  but the tick deposits 950000000000000128 wei: the amount is computed in floats, as
  \<open>(3 * 95 / 100) / 3\<close>, and converted to wei by a float multiplication. Evaluated in
  floats in the order the claim writes it, \<open>0.95 * 3 / 3\<close>, the amount would be
  949999999999999872 wei, which is not what the tick deposits either.
\<close>

theorem deposit_amount_counterexample:
  "place_liquidity (uniswap_case (Finite 3) (Finite 3) (Finite 1) (3 * 10 ^ 18) (1002 * 10 ^ 16) 0)
     = Inr [AddLiquidity ''0x89d24A6b4CcB1B6fAA2625fE562bDD9a23260359''
              950000000000000128 475000000000000064]
   \<and> uniswap_price (uniswap_case (Finite 3) (Finite 3) (Finite 1) (3 * 10 ^ 18) (1002 * 10 ^ 16) 0) = Finite 3
   \<and> min (of_int (uint (eth_balance_wei (uniswap_case (Finite 3) (Finite 3) (Finite 1) (3 * 10 ^ 18) (1002 * 10 ^ 16) 0))) / 10 ^ 18 - 2 / 100)
         (95 / 100 * (of_int (uint (token_balance_value (uniswap_case (Finite 3) (Finite 3) (Finite 1) (3 * 10 ^ 18) (1002 * 10 ^ 16) 0))) / 10 ^ 18) / 3)
         * 10 ^ 18 = (950000000000000000 :: rat)
   \<and> py_int (fmul
         (fmin (fsub (round64 (of_int (uint (eth_balance_wei (uniswap_case (Finite 3) (Finite 3) (Finite 1) (3 * 10 ^ 18) (1002 * 10 ^ 16) 0))) / 10 ^ 18))
                  (round64 (2 / 100)))
               (fquot (fmul (round64 (95 / 100))
                         (round64 (of_int (uint (token_balance_value (uniswap_case (Finite 3) (Finite 3) (Finite 1) (3 * 10 ^ 18) (1002 * 10 ^ 16) 0))) / 10 ^ 18)))
                  (Finite 3)))
         (Finite (10 ^ 18))) = Inr 949999999999999872"
  by (intro conjI; code_simp)

text \<open>
  C7, amended. Whenever a tick of \<open>place_liquidity\<close> adds liquidity, the pool price is
  not zero and the ether amount of the call, in wei, is
  \<open>int(min(eth_balance - 0.02, (token_balance * 95 / 100) / uniswap_price) * ONE_ETH)\<close>,
  where \<open>eth_balance\<close> and \<open>token_balance\<close> are the wei balance and the token balance
  divided by \<open>10^18\<close>, every operation is the float operation, rounded, in this order,
  and \<open>int\<close> cuts towards zero; the reserve for gas is the float 0.02, in ether.
\<close>

theorem deposit_amount_rounded:
  "AddLiquidity t a m \<in> set (calls_made (place_liquidity u)) \<longrightarrow>
     uniswap_price u \<noteq> Finite 0
     \<and> py_int (fmul
           (fmin (fsub (round64 (of_int (uint (eth_balance_wei u)) / 10 ^ 18))
                    (round64 (2 / 100)))
                 (fquot (fquot (fmul (round64 (of_int (uint (token_balance_value u)) / 10 ^ 18))
                                  (Finite 95)) (Finite 100))
                    (uniswap_price u)))
           (Finite (10 ^ 18))) = Inr a"
proof (cases "add_liquidity u")
  case True
  from True show ?thesis
  proof (cases rule: place_liquidity_add_cases)
    case none
    then show ?thesis by simp
  next
    case (add a' m')
    then show ?thesis by simp
  qed
next
  case False
  then show ?thesis
    by (simp add: place_liquidity_no_add calls_made_def)
qed

text \<open>
  The same at pool price 100.5 with 1005 tokens: with 10.02 ether the token side is the
  smaller one, \<open>min 10 9.5\<close> ether, and the call carries \<open>9.5 * 10^18\<close> wei; with
  1.02 ether the ether side is the smaller one, \<open>min 1 9.5\<close> ether, and the call carries
  \<open>10^18\<close> wei.
\<close>

theorem deposit_amount_rounded_witness:
  "AddLiquidity ''0x89d24A6b4CcB1B6fAA2625fE562bDD9a23260359''
       9500000000000000000 4750000000000000000
     \<in> set (calls_made (place_liquidity (uniswap_example (201 / 2) 0)))
   \<and> py_int (fmul
         (fmin (fsub (round64 (of_int (uint (eth_balance_wei (uniswap_example (201 / 2) 0))) / 10 ^ 18))
                  (round64 (2 / 100)))
               (fquot (fquot (fmul (round64 (of_int (uint (token_balance_value (uniswap_example (201 / 2) 0)))
                                        / 10 ^ 18)) (Finite 95)) (Finite 100))
                  (uniswap_price (uniswap_example (201 / 2) 0))))
         (Finite (10 ^ 18))) = Inr 9500000000000000000
   \<and> AddLiquidity ''0x89d24A6b4CcB1B6fAA2625fE562bDD9a23260359''
       1000000000000000000 500000000000000000
     \<in> set (calls_made (place_liquidity (uniswap_case (Finite 100) (Finite (201 / 2)) (Finite 1) (1005 * 10 ^ 18) (102 * 10 ^ 16) 0)))
   \<and> py_int (fmul
         (fmin (fsub (round64 (of_int (uint (eth_balance_wei (uniswap_case (Finite 100) (Finite (201 / 2)) (Finite 1) (1005 * 10 ^ 18) (102 * 10 ^ 16) 0))) / 10 ^ 18))
                  (round64 (2 / 100)))
               (fquot (fquot (fmul (round64 (of_int (uint (token_balance_value (uniswap_case (Finite 100) (Finite (201 / 2)) (Finite 1) (1005 * 10 ^ 18) (102 * 10 ^ 16) 0)))
                                        / 10 ^ 18)) (Finite 95)) (Finite 100))
                  (uniswap_price (uniswap_case (Finite 100) (Finite (201 / 2)) (Finite 1) (1005 * 10 ^ 18) (102 * 10 ^ 16) 0))))
         (Finite (10 ^ 18))) = Inr 1000000000000000000"
proof -
  have run: "place_liquidity (uniswap_case (Finite 100) (Finite (201 / 2)) (Finite 1) (1005 * 10 ^ 18) (102 * 10 ^ 16) 0)
      = Inr [AddLiquidity ''0x89d24A6b4CcB1B6fAA2625fE562bDD9a23260359''
               1000000000000000000 500000000000000000]"
    by code_simp
  have first: "AddLiquidity ''0x89d24A6b4CcB1B6fAA2625fE562bDD9a23260359''
       9500000000000000000 4750000000000000000
     \<in> set (calls_made (place_liquidity (uniswap_example (201 / 2) 0)))"
    unfolding uniswap_example_runs calls_made_def by simp
  have second: "AddLiquidity ''0x89d24A6b4CcB1B6fAA2625fE562bDD9a23260359''
       1000000000000000000 500000000000000000
     \<in> set (calls_made (place_liquidity (uniswap_case (Finite 100) (Finite (201 / 2)) (Finite 1) (1005 * 10 ^ 18) (102 * 10 ^ 16) 0)))"
    unfolding run calls_made_def by simp
  show ?thesis
    using deposit_amount_rounded [of "''0x89d24A6b4CcB1B6fAA2625fE562bDD9a23260359''"
        9500000000000000000 4750000000000000000 "uniswap_example (201 / 2) 0"]
      deposit_amount_rounded [of "''0x89d24A6b4CcB1B6fAA2625fE562bDD9a23260359''"
        1000000000000000000 500000000000000000 "uniswap_case (Finite 100) (Finite (201 / 2)) (Finite 1) (1005 * 10 ^ 18) (102 * 10 ^ 16) 0"]
      first second
    by blast
qed

text \<open>
  C8. Whenever a tick of \<open>place_liquidity\<close> removes liquidity, it makes one
  \<open>remove_liquidity\<close> call, for the whole liquidity-token balance; no call removes any
  other amount.
\<close>

theorem full_withdrawal:
  "filter is_remove (calls_made (place_liquidity u)) =
     (if remove_liquidity u \<and> 0 < liquidity_tokens u
      then [RemoveLiquidity (token u) (liquidity_tokens u)] else [])
   \<and> (RemoveLiquidity t a \<in> set (calls_made (place_liquidity u)) \<longrightarrow>
        a = liquidity_tokens u \<and> 0 < a)"
proof (cases "add_liquidity u")
  case True
  have r: "\<not> remove_liquidity u"
    using True by (rule add_remove_exclusive)
  from True show ?thesis
  proof (cases rule: place_liquidity_add_cases)
    case none
    with r show ?thesis by simp
  next
    case (add a' m')
    with r show ?thesis by simp
  qed
next
  case False
  then show ?thesis
    by (simp add: place_liquidity_no_add calls_made_def)
qed

text \<open>
  The same with a position of 7 liquidity tokens at pool price 102.
\<close>

theorem full_withdrawal_witness:
  "RemoveLiquidity ''0x89d24A6b4CcB1B6fAA2625fE562bDD9a23260359'' 7
     \<in> set (calls_made (place_liquidity (uniswap_example 102 7)))
   \<and> liquidity_tokens (uniswap_example 102 7) = 7
   \<and> filter is_remove (calls_made (place_liquidity (uniswap_example 102 7)))
       = [RemoveLiquidity ''0x89d24A6b4CcB1B6fAA2625fE562bDD9a23260359'' 7]"
proof -
  have position: "liquidity_tokens (uniswap_example 102 7) = 7"
    "token (uniswap_example 102 7) = ''0x89d24A6b4CcB1B6fAA2625fE562bDD9a23260359''"
    by (simp_all add: uniswap_example_def)
  have removes: "remove_liquidity (uniswap_example 102 7)"
    by code_simp
  show ?thesis
    using full_withdrawal [of "uniswap_example 102 7"
        "''0x89d24A6b4CcB1B6fAA2625fE562bDD9a23260359''" 7]
    by (simp add: uniswap_example_runs calls_made_def position removes)
qed

end
